theory Spec2Isabelle
  imports Main "HOL-Library.AList"
begin

section \<open>Python values and dictionaries\<close>

text \<open>
  The agent keeps its conversation data in Python dictionaries and its three tables in
  pandas data frames. A dictionary entry or a table cell is one of the values below.
  \<open>PNone\<close> is Python's \<open>None\<close> (falsy); \<open>PNaN\<close> is the missing cell that pandas
  yields when it reads an empty CSV field (a float NaN, which is truthy).
\<close>

datatype pyval = PNone | PNaN | PBool bool | PInt int | PStr string

fun truthy :: "pyval \<Rightarrow> bool" where
  "truthy PNone = False"
| "truthy PNaN = True"
| "truthy (PBool b) = b"
| "truthy (PInt n) = (n \<noteq> 0)"
| "truthy (PStr s) = (s \<noteq> [])"

text \<open>
  A dictionary with string keys is an association list, read with \<open>map_of\<close> and
  written with \<open>AList.update\<close>, which replaces the entry of a key that is present and
  appends a new one otherwise.
\<close>

type_synonym dict = "(string \<times> pyval) list"

text \<open>\<open>d.get(k)\<close> and \<open>d.get(k, default)\<close>.\<close>

definition get :: "dict \<Rightarrow> string \<Rightarrow> pyval" where
  "get d k = (case map_of d k of None \<Rightarrow> PNone | Some v \<Rightarrow> v)"

definition get_default :: "dict \<Rightarrow> string \<Rightarrow> pyval \<Rightarrow> pyval" where
  "get_default d k dflt = (case map_of d k of None \<Rightarrow> dflt | Some v \<Rightarrow> v)"

text \<open>\<open>d.update(other)\<close>.\<close>

definition dict_update :: "dict \<Rightarrow> dict \<Rightarrow> dict" where
  "dict_update d other = fold (\<lambda>(k, v). AList.update k v) other d"

section \<open>Strings\<close>

text \<open>
  Strings are UTF-8 byte strings. \<open>lower\<close> acts on the ASCII letters, which is all
  the keyword tests of the agent depend on.
\<close>

definition lower_char :: "char \<Rightarrow> char" where
  "lower_char c =
     (case map_of (zip ''ABCDEFGHIJKLMNOPQRSTUVWXYZ'' ''abcdefghijklmnopqrstuvwxyz'') c of
        None \<Rightarrow> c
      | Some l \<Rightarrow> l)"

definition lower :: "string \<Rightarrow> string" where
  "lower s = map lower_char s"

fun is_prefix :: "string \<Rightarrow> string \<Rightarrow> bool" where
  "is_prefix [] s = True"
| "is_prefix (k # ks) [] = False"
| "is_prefix (k # ks) (c # cs) = (k = c \<and> is_prefix ks cs)"

text \<open>
  \<open>strip\<close> removes white space at both ends. The white space of a Python string is
  the code points U+0009 to U+000D, U+001C to U+0020, U+0085, U+00A0, U+1680, U+2000 to
  U+200A, U+2028, U+2029, U+202F, U+205F and U+3000, listed here by their UTF-8
  encodings. \<open>lstrip\<close> removes such encodings from the front for as long as there is
  one; the right end is stripped on the reversed bytes.
\<close>

definition white_space :: "string list" where
  "white_space =
     [[CHR 0x09], [CHR 0x0A], [CHR 0x0B], [CHR 0x0C], [CHR 0x0D],
      [CHR 0x1C], [CHR 0x1D], [CHR 0x1E], [CHR 0x1F], [CHR 0x20],
      [CHR 0xC2, CHR 0x85], [CHR 0xC2, CHR 0xA0], [CHR 0xE1, CHR 0x9A, CHR 0x80],
      [CHR 0xE2, CHR 0x80, CHR 0x80], [CHR 0xE2, CHR 0x80, CHR 0x81],
      [CHR 0xE2, CHR 0x80, CHR 0x82], [CHR 0xE2, CHR 0x80, CHR 0x83],
      [CHR 0xE2, CHR 0x80, CHR 0x84], [CHR 0xE2, CHR 0x80, CHR 0x85],
      [CHR 0xE2, CHR 0x80, CHR 0x86], [CHR 0xE2, CHR 0x80, CHR 0x87],
      [CHR 0xE2, CHR 0x80, CHR 0x88], [CHR 0xE2, CHR 0x80, CHR 0x89],
      [CHR 0xE2, CHR 0x80, CHR 0x8A], [CHR 0xE2, CHR 0x80, CHR 0xA8],
      [CHR 0xE2, CHR 0x80, CHR 0xA9], [CHR 0xE2, CHR 0x80, CHR 0xAF],
      [CHR 0xE2, CHR 0x81, CHR 0x9F], [CHR 0xE3, CHR 0x80, CHR 0x80]]"

function lstrip :: "string list \<Rightarrow> string \<Rightarrow> string" where
  "lstrip ws s =
     (case find (\<lambda>w. w \<noteq> [] \<and> is_prefix w s) ws of
        None \<Rightarrow> s
      | Some w \<Rightarrow> lstrip ws (drop (length w) s))"
  by pat_completeness auto

termination
proof (relation "measure (\<lambda>(ws, s). length s)")
  show "wf (measure (\<lambda>(ws, s). length s))"
    by simp
next
  fix ws :: "string list" and s w :: string
  assume "find (\<lambda>w. w \<noteq> [] \<and> is_prefix w s) ws = Some w"
  then have "w \<noteq> []" and "is_prefix w s"
    by (auto simp: find_Some_iff)
  then have "s \<noteq> []"
    by (cases w; cases s) simp_all
  with \<open>w \<noteq> []\<close> show "((ws, drop (length w) s), (ws, s)) \<in> measure (\<lambda>(ws, s). length s)"
    by simp
qed

declare lstrip.simps [simp del]

definition strip :: "string \<Rightarrow> string" where
  "strip s = rev (lstrip (map rev white_space) (rev (lstrip white_space s)))"

text \<open>\<open>contains k s\<close> is Python's \<open>k in s\<close> on strings.\<close>

fun contains :: "string \<Rightarrow> string \<Rightarrow> bool" where
  "contains k [] = (k = [])"
| "contains k (c # cs) = (is_prefix k (c # cs) \<or> contains k cs)"

text \<open>\<open>any(keyword in content for keyword in keywords)\<close>.\<close>

definition any_keyword :: "string list \<Rightarrow> string \<Rightarrow> bool" where
  "any_keyword keywords content = list_ex (\<lambda>keyword. contains keyword content) keywords"

section \<open>The three tables\<close>

text \<open>
  A table is a CSV file read into a data frame: the file may be missing, otherwise it
  holds a list of rows (a file with a header only, or with no bytes at all, holds no
  rows). The cells are typed as the columns the code writes. The model takes the frame
  that \<open>read_csv\<close> returns to be the rows that \<open>to_csv\<close> wrote, cell by cell
  (\<open>csv_cell\<close>): a \<open>None\<close> or an empty string comes back as a missing cell, a number
  or a truth value as itself. What comes back for a non-empty text depends on the text
  and on the column it stands in (a marker such as \<open>N/A\<close>, \<open>NA\<close>, \<open>None\<close> or
  \<open>null\<close> is read as a missing cell, a column of number-like texts as numbers): it is
  given by the parameter \<open>read_text\<close>.
\<close>

datatype 'r csv_file = Missing | Rows "'r list"

fun rows :: "'r csv_file \<Rightarrow> 'r list" where
  "rows Missing = []"
| "rows (Rows df) = df"

fun csv_cell :: "(string \<Rightarrow> pyval) \<Rightarrow> pyval \<Rightarrow> pyval" where
  "csv_cell read_text PNone = PNaN"
| "csv_cell read_text (PStr s) = (if s = [] then PNaN else read_text s)"
| "csv_cell read_text v = v"

text \<open>A text that the reader hands back as the same text.\<close>

definition reads_back :: "(string \<Rightarrow> pyval) \<Rightarrow> string \<Rightarrow> bool" where
  "reads_back read_text s = (csv_cell read_text (PStr s) = PStr s)"

record patient =
  patient_id :: int
  first_name :: pyval
  last_name :: pyval
  dob :: pyval
  is_returning :: pyval
  email :: pyval
  location :: pyval
  phone_number :: pyval
  insurance_carrier :: pyval
  member_id :: pyval
  group_number :: pyval

record slot =
  doctor_name :: string
  date :: string
  time :: string
  is_available :: bool

text \<open>
  The ledger's columns \<open>doctor_name\<close> and \<open>insurance_carrier\<close> carry the prefix
  \<open>appt_\<close> here, to keep them apart from the columns of the same name in the other
  two tables.
\<close>

record appointment =
  appointment_id :: pyval
  patient_first_name :: pyval
  patient_last_name :: pyval
  patient_dob :: pyval
  patient_phone :: pyval
  patient_email :: pyval
  patient_location :: pyval
  appt_doctor_name :: pyval
  appointment_date :: pyval
  appointment_time :: pyval
  duration_minutes :: pyval
  is_returning_patient :: pyval
  appt_insurance_carrier :: pyval
  insurance_member_id :: pyval
  insurance_group_number :: pyval
  created_at :: pyval
  status :: pyval
  cancellation_reason :: pyval
  cancelled_at :: pyval

record store =
  patients_file :: "patient csv_file"
  schedule_file :: "slot csv_file"
  appointments_file :: "appointment csv_file"

text \<open>
  Every table access of the code sits in a \<open>try\<close> block. Which of the reads and
  writes of one call raise (a permission error, a full disk, a parse error) is an input
  of the model. \<open>to_csv\<close> opens its file for writing before it sends the rows, and the
  code never restores a file: what a write that raises leaves behind (the old file when
  the open is refused, a cut one otherwise) is an input as well, the field \<open>_left\<close> of
  the table. A missing file is not a fault: it is the \<open>Missing\<close> state of the file,
  which the code tests for.
\<close>

record faults =
  patients_read_fails :: bool
  patients_write_fails :: bool
  patients_left :: "patient csv_file"
  schedule_read_fails :: bool
  schedule_write_fails :: bool
  schedule_left :: "slot csv_file"
  appointments_read_fails :: bool
  appointments_write_fails :: bool
  appointments_left :: "appointment csv_file"


definition no_faults :: faults where
  "no_faults = \<lparr>patients_read_fails = False, patients_write_fails = False,
     patients_left = Missing,
     schedule_read_fails = False, schedule_write_fails = False, schedule_left = Missing,
     appointments_read_fails = False, appointments_write_fails = False,
     appointments_left = Missing\<rparr>"

section \<open>Comparisons on cells\<close>

text \<open>
  \<open>column == value\<close> on one cell: a missing cell equals nothing, not even another
  missing cell; a boolean and an integer compare as numbers.
\<close>

fun cell_eq :: "pyval \<Rightarrow> pyval \<Rightarrow> bool" where
  "cell_eq (PStr a) (PStr b) = (a = b)"
| "cell_eq (PInt a) (PInt b) = (a = b)"
| "cell_eq (PBool a) (PBool b) = (a = b)"
| "cell_eq (PBool a) (PInt b) = ((if a then 1 else 0) = b)"
| "cell_eq (PInt a) (PBool b) = (a = (if b then 1 else 0))"
| "cell_eq _ _ = False"

text \<open>\<open>column.str.lower() == s\<close> on one cell: a cell that is no string gives no match.\<close>

fun str_lower_is :: "pyval \<Rightarrow> string \<Rightarrow> bool" where
  "str_lower_is (PStr c) s = (lower c = s)"
| "str_lower_is _ s = False"

section \<open>Patient lookup\<close>

text \<open>
  The identity tuple of a patient record, and the row mask that the lookup and the
  cancellation share: names equal without regard to case, date of birth equal.
\<close>

definition patient_key :: "patient \<Rightarrow> pyval \<times> pyval \<times> pyval" where
  "patient_key r = (first_name r, last_name r, dob r)"

definition patients_unique :: "store \<Rightarrow> bool" where
  "patients_unique st = distinct (map patient_key (rows (patients_file st)))"

definition patient_mask :: "string \<Rightarrow> string \<Rightarrow> pyval \<Rightarrow> patient \<Rightarrow> bool" where
  "patient_mask fname lname birth r =
     (str_lower_is (first_name r) (lower fname) \<and> str_lower_is (last_name r) (lower lname) \<and>
      cell_eq (dob r) birth)"

text \<open>
  \<open>normalize_date_format\<close> tries five \<open>strptime\<close> formats of the standard library and
  prints the first that parses as an ISO date; it is a parameter here.
\<close>

definition lookup_patient ::
  "faults \<Rightarrow> (string \<Rightarrow> string) \<Rightarrow> store \<Rightarrow> string \<Rightarrow> string \<Rightarrow> string \<Rightarrow> bool" where
  "lookup_patient f normalize_date_format st fname lname birth =
     (case patients_file st of
        Missing \<Rightarrow> False
      | Rows df \<Rightarrow>
          if patients_read_fails f then False
          else if df = [] then False
          else (case filter (patient_mask fname lname (PStr (normalize_date_format birth))) df of
                  [] \<Rightarrow> False
                | r # _ \<Rightarrow> truthy (is_returning r)))"

section \<open>The slot query\<close>

text \<open>
  \<open>pd.to_datetime\<close> and the clock are parameters: \<open>to_datetime\<close> parses the text of
  one row (\<open>None\<close> when it raises, which makes the whole query return no slot) and
  \<open>now\<close> is the time of the query, both on one integer time line. The sort of pandas is
  not stable; the order of equal keys chosen here is that of \<open>sort_key\<close>. The query
  takes a \<open>duration\<close> argument as well and never looks at it. A doctor that is \<open>None\<close>
  or the empty string switches the doctor filter off.
\<close>

definition slot_datetime :: "(string \<Rightarrow> int option) \<Rightarrow> slot \<Rightarrow> int option" where
  "slot_datetime to_datetime r = to_datetime (date r @ '' '' @ time r)"

fun with_datetime :: "(string \<Rightarrow> int option) \<Rightarrow> slot list \<Rightarrow> (slot \<times> int) list option" where
  "with_datetime to_datetime [] = Some []"
| "with_datetime to_datetime (r # df) =
     (case slot_datetime to_datetime r of
        None \<Rightarrow> None
      | Some t \<Rightarrow>
          (case with_datetime to_datetime df of
             None \<Rightarrow> None
           | Some rest \<Rightarrow> Some ((r, t) # rest)))"

definition get_available_slots ::
  "faults \<Rightarrow> (string \<Rightarrow> int option) \<Rightarrow> int \<Rightarrow> store \<Rightarrow> pyval \<Rightarrow> slot list" where
  "get_available_slots f to_datetime now st doctor =
     (case schedule_file st of
        Missing \<Rightarrow> []
      | Rows df \<Rightarrow>
          if schedule_read_fails f then []
          else if df = [] then []
          else (case with_datetime to_datetime df of
                  None \<Rightarrow> []
                | Some dated \<Rightarrow>
                    let future_slots = filter (\<lambda>(r, t). now < t) dated;
                        available = filter (\<lambda>(r, t). is_available r) future_slots;
                        chosen = (if truthy doctor
                                  then filter (\<lambda>(r, t). cell_eq (PStr (doctor_name r)) doctor) available
                                  else available);
                        ordered = sort_key snd chosen
                    in map fst (take 8 ordered)))"

section \<open>Booking\<close>

text \<open>
  The \<open>patient_id\<close> column is a column of 64-bit integers: \<open>max() + 1\<close> is computed
  in that type and wraps around.
\<close>

definition wrap64 :: "int \<Rightarrow> int" where
  "wrap64 n = (n + 2 ^ 63) mod 2 ^ 64 - 2 ^ 63"

definition new_patient_id :: "patient list \<Rightarrow> int" where
  "new_patient_id df =
     (case df of
        [] \<Rightarrow> 1
      | r # rs \<Rightarrow> wrap64 (fold (\<lambda>p m. max (patient_id p) m) rs (patient_id r) + 1))"

definition new_patient :: "(string \<Rightarrow> pyval) \<Rightarrow> int \<Rightarrow> dict \<Rightarrow> dict \<Rightarrow> patient" where
  "new_patient read_text pid patient_info insurance_info =
     \<lparr>patient_id = pid,
      first_name = csv_cell read_text (get patient_info ''first_name''),
      last_name = csv_cell read_text (get patient_info ''last_name''),
      dob = csv_cell read_text (get patient_info ''dob''),
      is_returning = PBool True,
      email = csv_cell read_text (get patient_info ''email''),
      location = csv_cell read_text (get patient_info ''location''),
      phone_number = csv_cell read_text (get_default patient_info ''phone_number'' (PStr ''N/A'')),
      insurance_carrier = csv_cell read_text (get_default insurance_info ''carrier'' (PStr ''N/A'')),
      member_id = csv_cell read_text (get_default insurance_info ''member_id'' (PStr ''N/A'')),
      group_number =
        csv_cell read_text (get_default insurance_info ''group_number'' (PStr ''N/A''))\<rparr>"

text \<open>
  \<open>_add_new_patient\<close>: a missing patients file counts as an empty table; any other
  failure is caught and printed. The insert makes no test for a record of the same
  identity.
\<close>

definition add_new_patient ::
  "(string \<Rightarrow> pyval) \<Rightarrow> faults \<Rightarrow> store \<Rightarrow> dict \<Rightarrow> dict \<Rightarrow> store" where
  "add_new_patient read_text f st patient_info insurance_info =
     (case patients_file st of
        Missing \<Rightarrow>
          if patients_write_fails f then st\<lparr>patients_file := patients_left f\<rparr>
          else st\<lparr>patients_file := Rows [new_patient read_text 1 patient_info insurance_info]\<rparr>
      | Rows df \<Rightarrow>
          if patients_read_fails f then st
          else if patients_write_fails f then st\<lparr>patients_file := patients_left f\<rparr>
          else st\<lparr>patients_file :=
                 Rows (df @ [new_patient read_text (new_patient_id df) patient_info
                               insurance_info])\<rparr>)"

text \<open>
  \<open>_update_schedule_availability\<close>: sets the flag of every row of the given doctor, date
  and time. Nothing happens when the file is missing or empty, and every failure is
  caught and printed inside the function: the caller never learns of it.
\<close>

definition slot_mask :: "pyval \<Rightarrow> pyval \<Rightarrow> pyval \<Rightarrow> slot \<Rightarrow> bool" where
  "slot_mask doctor day hour r =
     (cell_eq (PStr (doctor_name r)) doctor \<and> cell_eq (PStr (date r)) day \<and>
      cell_eq (PStr (time r)) hour)"

definition set_flag :: "pyval \<Rightarrow> pyval \<Rightarrow> pyval \<Rightarrow> bool \<Rightarrow> slot \<Rightarrow> slot" where
  "set_flag doctor day hour avail r =
     (if slot_mask doctor day hour r then r\<lparr>is_available := avail\<rparr> else r)"

definition update_schedule_availability ::
  "faults \<Rightarrow> store \<Rightarrow> pyval \<Rightarrow> pyval \<Rightarrow> pyval \<Rightarrow> bool \<Rightarrow> store" where
  "update_schedule_availability f st doctor day hour avail =
     (case schedule_file st of
        Missing \<Rightarrow> st
      | Rows df \<Rightarrow>
          if schedule_read_fails f then st
          else if df = [] then st
          else if schedule_write_fails f then st\<lparr>schedule_file := schedule_left f\<rparr>
          else st\<lparr>schedule_file := Rows (map (set_flag doctor day hour avail) df)\<rparr>)"

text \<open>
  The ledger row of a booking, as the next read of the file returns it. \<open>token\<close> is the
  first eight characters of a fresh UUID in upper case and \<open>now_text\<close> the printed
  clock; both come from the environment.
\<close>

definition appointment_data ::
  "(string \<Rightarrow> pyval) \<Rightarrow> string \<Rightarrow> string \<Rightarrow> dict \<Rightarrow> dict \<Rightarrow> dict \<Rightarrow> appointment" where
  "appointment_data read_text token now_text patient_info appointment_info insurance_info =
     \<lparr>appointment_id = csv_cell read_text (PStr token),
      patient_first_name = csv_cell read_text (get patient_info ''first_name''),
      patient_last_name = csv_cell read_text (get patient_info ''last_name''),
      patient_dob = csv_cell read_text (get patient_info ''dob''),
      patient_phone = csv_cell read_text (get_default patient_info ''phone_number'' (PStr ''N/A'')),
      patient_email = csv_cell read_text (get patient_info ''email''),
      patient_location = csv_cell read_text (get patient_info ''location''),
      appt_doctor_name = csv_cell read_text (get appointment_info ''doctor_name''),
      appointment_date = csv_cell read_text (get appointment_info ''date''),
      appointment_time = csv_cell read_text (get appointment_info ''time''),
      duration_minutes = csv_cell read_text (get appointment_info ''duration''),
      is_returning_patient = csv_cell read_text (get patient_info ''is_returning''),
      appt_insurance_carrier = csv_cell read_text (get insurance_info ''carrier''),
      insurance_member_id = csv_cell read_text (get insurance_info ''member_id''),
      insurance_group_number = csv_cell read_text (get insurance_info ''group_number''),
      created_at = csv_cell read_text (PStr now_text),
      status = csv_cell read_text (PStr ''Confirmed''),
      cancellation_reason = csv_cell read_text (PStr []),
      cancelled_at = csv_cell read_text (PStr [])\<rparr>"

text \<open>
  \<open>save_appointment\<close>: the patient insert runs first, outside the \<open>try\<close> block. Inside
  it the ledger is read (a missing file counts as empty), the row appended and the file
  written; a failure there returns \<open>ERROR\<close> before the schedule is touched. The
  schedule update comes last.
\<close>

definition save_appointment ::
  "(string \<Rightarrow> pyval) \<Rightarrow> faults \<Rightarrow> string \<Rightarrow> string \<Rightarrow> store \<Rightarrow> dict \<Rightarrow> dict \<Rightarrow> dict
     \<Rightarrow> store \<times> string" where
  "save_appointment read_text f token now_text st patient_info appointment_info insurance_info =
     (let st1 = (if \<not> truthy (get patient_info ''is_returning'')
                 then add_new_patient read_text f st patient_info insurance_info else st);
          row = appointment_data read_text token now_text patient_info appointment_info
                  insurance_info
      in case (case appointments_file st1 of
                 Missing \<Rightarrow> Some []
               | Rows df \<Rightarrow> if appointments_read_fails f then None else Some df) of
           None \<Rightarrow> (st1, ''ERROR'')
         | Some df \<Rightarrow>
             if appointments_write_fails f
             then (st1\<lparr>appointments_file := appointments_left f\<rparr>, ''ERROR'')
             else (update_schedule_availability f
                     (st1\<lparr>appointments_file := Rows (df @ [row])\<rparr>)
                     (get appointment_info ''doctor_name'')
                     (get appointment_info ''date'')
                     (get appointment_info ''time'') False,
                   token))"

text \<open>
  Three notions for the statements about the commit: the patient insert that precedes
  it, and the two conditions under which it returns \<open>ERROR\<close>: the ledger cannot be
  read, or it is read and cannot be written.
\<close>

definition patient_step ::
  "(string \<Rightarrow> pyval) \<Rightarrow> faults \<Rightarrow> store \<Rightarrow> dict \<Rightarrow> dict \<Rightarrow> store" where
  "patient_step read_text f st patient_info insurance_info =
     (if \<not> truthy (get patient_info ''is_returning'')
      then add_new_patient read_text f st patient_info insurance_info else st)"

definition ledger_read_fails :: "faults \<Rightarrow> store \<Rightarrow> bool" where
  "ledger_read_fails f st = (appointments_read_fails f \<and> appointments_file st \<noteq> Missing)"

definition ledger_write_fails :: "faults \<Rightarrow> store \<Rightarrow> bool" where
  "ledger_write_fails f st = (appointments_write_fails f \<and> \<not> ledger_read_fails f st)"

section \<open>Cancellation\<close>

text \<open>
  The inner \<open>try\<close> block of \<open>cancel_appointment\<close> that removes a first-time patient:
  every record whose names match without regard to case and whose date of birth is equal
  is dropped. \<open>.lower()\<close> on a ledger cell that is no string raises, which the block
  catches.
\<close>

definition remove_new_patient :: "faults \<Rightarrow> store \<Rightarrow> appointment \<Rightarrow> store" where
  "remove_new_patient f st appt =
     (case patients_file st of
        Missing \<Rightarrow> st
      | Rows df_patients \<Rightarrow>
          if patients_read_fails f then st
          else (case (patient_first_name appt, patient_last_name appt) of
                  (PStr fname, PStr lname) \<Rightarrow>
                    if patients_write_fails f then st\<lparr>patients_file := patients_left f\<rparr>
                    else st\<lparr>patients_file :=
                           Rows (filter (\<lambda>r. \<not> patient_mask fname lname (patient_dob appt) r)
                                   df_patients)\<rparr>
                | _ \<Rightarrow> st))"

definition cancel_row ::
  "(string \<Rightarrow> pyval) \<Rightarrow> string \<Rightarrow> string \<Rightarrow> appointment \<Rightarrow> appointment" where
  "cancel_row read_text reason now_text r =
     r\<lparr>status := csv_cell read_text (PStr ''Cancelled''),
       cancellation_reason := (if reason \<noteq> [] then csv_cell read_text (PStr reason)
                               else cancellation_reason r),
       cancelled_at := csv_cell read_text (PStr now_text)\<rparr>"

definition mark_cancelled ::
  "(string \<Rightarrow> pyval) \<Rightarrow> string \<Rightarrow> string \<Rightarrow> string \<Rightarrow> appointment list
     \<Rightarrow> appointment list" where
  "mark_cancelled read_text ident reason now_text df =
     map (\<lambda>r. if cell_eq (appointment_id r) (PStr ident)
              then cancel_row read_text reason now_text r else r) df"

text \<open>
  \<open>cancel_appointment\<close>: a failure before or at the write of the ledger returns False.
  After that write the schedule update and the removal of a first-time patient catch
  their own failures, and the function returns True whatever became of them.
\<close>

definition cancel_appointment ::
  "(string \<Rightarrow> pyval) \<Rightarrow> faults \<Rightarrow> string \<Rightarrow> store \<Rightarrow> string \<Rightarrow> string \<Rightarrow> store \<times> bool" where
  "cancel_appointment read_text f now_text st ident reason =
     (case appointments_file st of
        Missing \<Rightarrow> (st, False)
      | Rows df_appts \<Rightarrow>
          if appointments_read_fails f then (st, False)
          else if df_appts = [] then (st, False)
          else (case filter (\<lambda>r. cell_eq (appointment_id r) (PStr ident)) df_appts of
                  [] \<Rightarrow> (st, False)
                | appt # _ \<Rightarrow>
                    if appointments_write_fails f
                    then (st\<lparr>appointments_file := appointments_left f\<rparr>, False)
                    else
                      let st1 = st\<lparr>appointments_file :=
                                  Rows (mark_cancelled read_text ident reason now_text df_appts)\<rparr>;
                          st2 = update_schedule_availability f st1 (appt_doctor_name appt)
                                  (appointment_date appt) (appointment_time appt) True
                      in (if \<not> truthy (is_returning_patient appt)
                          then remove_new_patient f st2 appt else st2, True)))"

section \<open>The conversation state\<close>

text \<open>
  The replies of the agent are long fixed texts with a few values spliced in. A reply is
  modelled by a tag that names the text and carries the spliced values.
\<close>

datatype reply =
    Welcome
  | CancelAck
  | ScheduleAck
  | Clarify
  | SlotSelected string string string
  | ChooseValidSlot nat
  | SlotsOffered "slot list"
  | NoSlots
  | SelfPayAck
  | InsuranceComplete
  | InsurancePromptAll
  | InsurancePromptMissing string
  | AppointmentConfirmed pyval pyval pyval pyval pyval pyval pyval string

datatype message = HumanMessage string | AIMessage reply

text \<open>
  \<open>SchedulingState\<close> is a typed dictionary whose keys other than \<open>messages\<close> are absent
  until a node sets them: an absent key is \<open>None\<close>. The key \<open>appointment_id\<close> is
  the field \<open>appointment_id_key\<close>, the plain name being the ledger's column.
\<close>

record SchedulingState =
  messages :: "message list"
  current_stage :: "string option"
  intent :: "string option"
  patient_info :: "dict option"
  appointment_info :: "dict option"
  insurance_info :: "dict option"
  available_slots :: "slot list option"
  appointment_id_key :: "string option"

text \<open>\<open>state.get(key, default)\<close> on an optional key.\<close>

definition state_get :: "'a option \<Rightarrow> 'a \<Rightarrow> 'a" where
  "state_get v dflt = (case v of None \<Rightarrow> dflt | Some x \<Rightarrow> x)"

section \<open>The router\<close>

definition router :: "SchedulingState \<Rightarrow> string" where
  "router state =
     (if length (messages state) \<le> 1 then ''greeting''
      else if state_get (intent state) [] = ''cancel'' then ''cancellation''
      else if state_get (intent state) [] = ''schedule''
        then state_get (current_stage state) ''patient_lookup''
      else state_get (current_stage state) ''greeting'')"

section \<open>The stage handlers\<close>

text \<open>
  A handler returns the keys it changes; the graph library writes them over the state and
  appends the reply to the history. The handlers below return the state after that
  merge. A handler that raises returns the error instead.
\<close>

datatype error = IndexError | KeyError

definition say :: "SchedulingState \<Rightarrow> reply \<Rightarrow> SchedulingState" where
  "say state r = state\<lparr>messages := messages state @ [AIMessage r]\<rparr>"

subsection \<open>Greeting\<close>

definition cancel_keywords :: "string list" where
  "cancel_keywords = [''cancel'', ''cancellation'', ''remove'', ''delete'', ''reschedule'']"

definition schedule_keywords :: "string list" where
  "schedule_keywords =
     [''schedule'', ''book'', ''appointment'', ''new'', ''visit'', ''see doctor'', ''make'', ''like'']"

text \<open>When the last message is not the user's, the handler falls off its end and changes nothing.\<close>

definition greeting_node :: "SchedulingState \<Rightarrow> SchedulingState" where
  "greeting_node state =
     (if length (messages state) \<le> 1
      then (say state Welcome)\<lparr>current_stage := Some ''greeting''\<rparr>
      else (case last (messages state) of
              AIMessage _ \<Rightarrow> state
            | HumanMessage content \<Rightarrow>
                if any_keyword cancel_keywords (lower content)
                then (say state CancelAck)
                       \<lparr>current_stage := Some ''cancellation'', intent := Some ''cancel''\<rparr>
                else if any_keyword schedule_keywords (lower content)
                then (say state ScheduleAck)
                       \<lparr>current_stage := Some ''patient_lookup'', intent := Some ''schedule''\<rparr>
                else (say state Clarify)\<lparr>current_stage := Some ''greeting''\<rparr>))"

subsection \<open>Calendar integration\<close>

text \<open>The dictionary of one offered slot, as \<open>to_dict('records')\<close> builds it.\<close>

definition slot_dict :: "slot \<Rightarrow> dict" where
  "slot_dict s =
     [(''doctor_name'', PStr (doctor_name s)), (''date'', PStr (date s)),
      (''time'', PStr (time s)), (''is_available'', PBool (is_available s))]"

text \<open>The second half of the handler: query the schedule and offer what it returns.\<close>

definition offer_slots ::
  "faults \<Rightarrow> (string \<Rightarrow> int option) \<Rightarrow> int \<Rightarrow> store \<Rightarrow> SchedulingState \<Rightarrow> SchedulingState" where
  "offer_slots f to_datetime now st state =
     (let info = state_get (appointment_info state) [];
          slots = get_available_slots f to_datetime now st (get info ''doctor_name'')
      in if slots \<noteq> []
         then (say state (SlotsOffered slots))
                \<lparr>current_stage := Some ''calendar_integration'',
                 appointment_info := Some info, available_slots := Some slots\<rparr>
         else (say state NoSlots)
                \<lparr>current_stage := Some ''smart_scheduling'',
                 appointment_info := Some (AList.delete ''doctor_name'' info),
                 available_slots := Some slots\<rparr>)"

text \<open>
  \<open>py_int\<close> is Python's \<open>int\<close> on a string, \<open>None\<close> when it raises \<open>ValueError\<close>. The
  handler returns the store next to the state: it only ever reads the schedule.
\<close>

definition calendar_integration_node ::
  "faults \<Rightarrow> (string \<Rightarrow> int option) \<Rightarrow> int \<Rightarrow> (string \<Rightarrow> int option) \<Rightarrow> store \<Rightarrow> SchedulingState
     \<Rightarrow> error + SchedulingState \<times> store" where
  "calendar_integration_node f to_datetime now py_int st state =
     (if messages state = [] then Inl IndexError
      else (case last (messages state) of
              AIMessage _ \<Rightarrow> Inr (offer_slots f to_datetime now st state, st)
            | HumanMessage content \<Rightarrow>
                (case py_int (strip content) of
                   None \<Rightarrow> Inr (offer_slots f to_datetime now st state, st)
                 | Some n \<Rightarrow>
                     let slot_number = n - 1;
                         offered = state_get (available_slots state) []
                     in if 0 \<le> slot_number \<and> slot_number < int (length offered)
                        then
                          let selected_slot = offered ! nat slot_number
                          in Inr ((say state (SlotSelected (doctor_name selected_slot)
                                     (date selected_slot) (time selected_slot)))
                                   \<lparr>current_stage := Some ''insurance_collection'',
                                    appointment_info :=
                                      Some (dict_update (state_get (appointment_info state) [])
                                              (slot_dict selected_slot))\<rparr>, st)
                        else Inr ((say state (ChooseValidSlot (length offered)))
                                   \<lparr>current_stage := Some ''calendar_integration''\<rparr>, st))))"

subsection \<open>Insurance collection\<close>

text \<open>
  The extraction is a call of the language model followed by a JSON parser: a
  parameter. It raises, or returns something that is no dictionary, or returns a
  dictionary, whose values are strings or other JSON values, known by their truth value.
\<close>

datatype jvalue = JStr string | JOther bool

datatype extraction = ExtractionRaises | NotADict | ExtractedDict "(string \<times> jvalue) list"

definition self_pay_keywords :: "string list" where
  "self_pay_keywords =
     [''no insurance'', ''self pay'', ''self-pay'', ''i don't have'', ''paying myself'',
      ''cash'', ''no'']"

text \<open>
  The merge loop: a string that is not blank after \<open>strip\<close> is stored; a falsy value is
  skipped; \<open>strip\<close> on a truthy value that is no string raises, which ends the loop with
  the entries stored so far.
\<close>

fun merge_extracted :: "dict \<Rightarrow> (string \<times> jvalue) list \<Rightarrow> dict" where
  "merge_extracted info [] = info"
| "merge_extracted info ((key, JStr v) # rest) =
     (if v \<noteq> [] \<and> strip v \<noteq> []
      then merge_extracted (AList.update key (PStr (strip v)) info) rest
      else merge_extracted info rest)"
| "merge_extracted info ((key, JOther t) # rest) =
     (if t then info else merge_extracted info rest)"

definition required :: "string list" where
  "required = [''carrier'', ''member_id'', ''group_number'']"

definition ask_insurance :: "SchedulingState \<Rightarrow> dict \<Rightarrow> SchedulingState" where
  "ask_insurance state info =
     (let missing = filter (\<lambda>field. \<not> truthy (get info field)) required
      in if missing = []
         then (say state InsuranceComplete)
                \<lparr>current_stage := Some ''appointment_confirmation'', insurance_info := Some info\<rparr>
         else (say state (if info = [] then InsurancePromptAll
                          else InsurancePromptMissing (hd missing)))
                \<lparr>current_stage := Some ''insurance_collection'', insurance_info := Some info\<rparr>)"

definition insurance_collection_node ::
  "(string \<Rightarrow> extraction) \<Rightarrow> SchedulingState \<Rightarrow> error + SchedulingState" where
  "insurance_collection_node extract state =
     (if messages state = [] then Inl IndexError
      else
        let info = state_get (insurance_info state) []
        in (case last (messages state) of
              AIMessage _ \<Rightarrow> Inr (ask_insurance state info)
            | HumanMessage content \<Rightarrow>
                if any_keyword self_pay_keywords (lower content)
                then Inr ((say state SelfPayAck)
                       \<lparr>current_stage := Some ''appointment_confirmation'',
                        insurance_info :=
                          Some (dict_update info
                                  [(''carrier'', PStr ''Self-Pay''), (''member_id'', PStr ''N/A''),
                                   (''group_number'', PStr ''N/A'')])\<rparr>)
                else Inr (ask_insurance state
                       (case extract content of
                          ExtractedDict kvs \<Rightarrow> merge_extracted info kvs
                        | _ \<Rightarrow> info))))"

subsection \<open>Appointment confirmation\<close>

text \<open>
  The handler reads the three bags with \<open>state[key]\<close>, which raises on an absent key,
  commits the booking and always moves to form_distribution, whatever the commit
  returned.
\<close>

definition appointment_confirmation_node ::
  "(string \<Rightarrow> pyval) \<Rightarrow> faults \<Rightarrow> string \<Rightarrow> string \<Rightarrow> store \<Rightarrow> SchedulingState
     \<Rightarrow> error + SchedulingState \<times> store" where
  "appointment_confirmation_node read_text f token now_text st state =
     (case (patient_info state, appointment_info state, insurance_info state) of
        (Some p, Some a, Some i) \<Rightarrow>
          (case save_appointment read_text f token now_text st p a i of
             (st', ident) \<Rightarrow>
               Inr ((say state (AppointmentConfirmed (get p ''first_name'') (get p ''last_name'')
                        (get a ''doctor_name'') (get a ''date'') (get a ''time'')
                        (get a ''duration'') (get i ''carrier'') ident))
                      \<lparr>current_stage := Some ''form_distribution'',
                       appointment_id_key := Some ident\<rparr>, st'))
      | _ \<Rightarrow> Inl KeyError)"

section \<open>Example data\<close>

text \<open>Concrete conversations and tables, on which the properties below are run.\<close>

definition reschedule_turn :: SchedulingState where
  "reschedule_turn =
     \<lparr>messages = [HumanMessage ''Hello'', AIMessage Welcome,
                  HumanMessage ''I want to Reschedule my appointment''],
      current_stage = Some ''greeting'', intent = None,
      patient_info = None, appointment_info = None, insurance_info = None,
      available_slots = None, appointment_id_key = None\<rparr>"

definition north_turn :: SchedulingState where
  "north_turn =
     \<lparr>messages = [HumanMessage ''3'',
                  AIMessage (SlotSelected ''Dr. Emily Chen'' ''2026-11-04'' ''09:30''),
                  HumanMessage ''Aetna, I live up North''],
      current_stage = Some ''insurance_collection'', intent = Some ''schedule'',
      patient_info = None, appointment_info = None, insurance_info = None,
      available_slots = None, appointment_id_key = None\<rparr>"

definition chen_slot :: "string \<Rightarrow> string \<Rightarrow> bool \<Rightarrow> slot" where
  "chen_slot day hour avail =
     \<lparr>doctor_name = ''Dr. Emily Chen'', date = day, time = hour, is_available = avail\<rparr>"

definition five_slots :: "slot list" where
  "five_slots =
     [chen_slot ''2026-11-04'' ''09:00'' True, chen_slot ''2026-11-04'' ''09:30'' True,
      chen_slot ''2026-11-04'' ''10:00'' True, chen_slot ''2026-11-05'' ''09:00'' True,
      chen_slot ''2026-11-05'' ''09:30'' True]"

definition nine_turn :: SchedulingState where
  "nine_turn =
     \<lparr>messages = [HumanMessage ''Dr. Chen please'', AIMessage (SlotsOffered five_slots),
                  HumanMessage '' 9 ''],
      current_stage = Some ''calendar_integration'', intent = Some ''schedule'',
      patient_info = None,
      appointment_info = Some [(''duration'', PInt 60), (''doctor_name'', PStr ''Dr. Emily Chen'')],
      insurance_info = None,
      available_slots = Some five_slots, appointment_id_key = None\<rparr>"

text \<open>An instance of \<open>int\<close> that reads the one numeral the example needs.\<close>

definition int_nine :: "string \<Rightarrow> int option" where
  "int_nine s = (if s = ''9'' then Some 9 else None)"

definition schedule_only :: "slot list \<Rightarrow> store" where
  "schedule_only df =
     \<lparr>patients_file = Missing, schedule_file = Rows df, appointments_file = Missing\<rparr>"

definition aetna_turn :: SchedulingState where
  "aetna_turn =
     \<lparr>messages = [HumanMessage ''2'',
                  AIMessage (SlotSelected ''Dr. Emily Chen'' ''2026-11-04'' ''09:30''),
                  HumanMessage ''Aetna'', AIMessage (InsurancePromptMissing ''member_id''),
                  HumanMessage ''it is 987654321''],
      current_stage = Some ''insurance_collection'', intent = Some ''schedule'',
      patient_info = None, appointment_info = None,
      insurance_info = Some [(''carrier'', PStr ''Aetna'')],
      available_slots = None, appointment_id_key = None\<rparr>"

text \<open>
  An extraction that returns a blank carrier (a space and a no-break space), a member id
  and an empty group number.
\<close>

definition blank_carrier :: "string \<Rightarrow> extraction" where
  "blank_carrier content =
     ExtractedDict [(''carrier'', JStr [CHR 0x20, CHR 0xC2, CHR 0xA0]),
                    (''member_id'', JStr '' 987654321''), (''group_number'', JStr [])]"

text \<open>
  A reader for the tables of the examples, none of whose text columns is number-like:
  the markers of a missing value are read as missing cells, every other text as itself.
\<close>

definition na_values :: "string list" where
  "na_values =
     [''#N/A'', ''#N/A N/A'', ''#NA'', ''-1.#IND'', ''-1.#QNAN'', ''-NaN'', ''-nan'',
      ''1.#IND'', ''1.#QNAN'', ''<NA>'', ''N/A'', ''NA'', ''NULL'', ''NaN'', ''None'',
      ''n/a'', ''nan'', ''null'']"

definition text_reader :: "string \<Rightarrow> pyval" where
  "text_reader s = (if s \<in> set na_values then PNaN else PStr s)"

text \<open>
  The dates of the examples are in ISO form already, which the date normaliser prints
  back as they are.
\<close>

definition iso_dates :: "string \<Rightarrow> string" where
  "iso_dates birth = birth"

text \<open>
  A clinic with the two patients of the built-in sample data (the second is on file with
  \<open>is_returning\<close> false), four slots and an empty ledger, and the three bags of a
  booking by the second patient.
\<close>

definition john_record :: patient where
  "john_record =
     \<lparr>patient_id = 1, first_name = PStr ''John'', last_name = PStr ''Doe'',
      dob = PStr ''1985-03-15'', is_returning = PBool True,
      email = PStr ''john.doe@email.com'', location = PStr ''123 Main St, Anytown, USA'',
      phone_number = PStr ''555-0123'', insurance_carrier = PStr ''Blue Cross Blue Shield'',
      member_id = PInt 123456789, group_number = PInt 987654\<rparr>"

definition jane_record :: patient where
  "jane_record =
     \<lparr>patient_id = 2, first_name = PStr ''Jane'', last_name = PStr ''Smith'',
      dob = PStr ''1990-07-22'', is_returning = PBool False,
      email = PStr ''jane.smith@email.com'', location = PStr ''456 Oak Ave, Anytown, USA'',
      phone_number = PStr ''555-0124'', insurance_carrier = PStr ''Aetna'',
      member_id = PInt 987654321, group_number = PInt 123456\<rparr>"

definition rodriguez_slot :: "string \<Rightarrow> string \<Rightarrow> bool \<Rightarrow> slot" where
  "rodriguez_slot day hour avail =
     \<lparr>doctor_name = ''Dr. David Rodriguez'', date = day, time = hour, is_available = avail\<rparr>"

definition clinic :: store where
  "clinic =
     \<lparr>patients_file = Rows [john_record, jane_record],
      schedule_file = Rows [chen_slot ''2026-11-04'' ''09:30'' True,
                            rodriguez_slot ''2026-11-04'' ''09:00'' True,
                            chen_slot ''2026-11-04'' ''09:00'' True,
                            chen_slot ''2026-11-04'' ''10:00'' False],
      appointments_file = Rows []\<rparr>"

definition jane_info :: dict where
  "jane_info =
     [(''first_name'', PStr ''Jane''), (''last_name'', PStr ''Smith''),
      (''dob'', PStr ''1990-07-22''), (''location'', PStr ''456 Oak Ave, Anytown, USA''),
      (''email'', PStr ''jane.smith@email.com''), (''is_returning'', PBool False)]"

definition chen_booking :: dict where
  "chen_booking =
     [(''duration'', PInt 60), (''doctor_name'', PStr ''Dr. Emily Chen''),
      (''date'', PStr ''2026-11-04''), (''time'', PStr ''09:00''), (''is_available'', PBool True)]"

definition self_pay_info :: dict where
  "self_pay_info =
     [(''carrier'', PStr ''Self-Pay''), (''member_id'', PStr ''N/A''),
      (''group_number'', PStr ''N/A'')]"

definition amy_info :: dict where
  "amy_info =
     [(''first_name'', PStr ''Amy''), (''last_name'', PStr ''Davis''),
      (''dob'', PStr ''1988-11-30''), (''location'', PStr ''321 Elm Street, Boston, MA 02101''),
      (''email'', PStr ''amy.davis@outlook.com''), (''is_returning'', PBool False)]"

text \<open>
  The clinic after a booking of Dr. Chen's slot at 09:00 by the second patient of the
  sample data, and after the same booking by a patient who is not on file.
\<close>

definition jane_booked :: store where
  "jane_booked =
     fst (save_appointment text_reader no_faults ''A1B2C3D4'' ''2026-11-03 10:15:00'' clinic
            jane_info chen_booking self_pay_info)"

definition amy_booked :: store where
  "amy_booked =
     fst (save_appointment text_reader no_faults ''A1B2C3D4'' ''2026-11-03 10:15:00'' clinic
            amy_info chen_booking self_pay_info)"

text \<open>
  Calls in which one read raises: that of the schedule, and that of the patients table.
\<close>

definition schedule_read_fault :: faults where
  "schedule_read_fault = no_faults\<lparr>schedule_read_fails := True\<rparr>"


text \<open>A clock for the examples: minutes after midnight of the day of the slots.\<close>

definition minutes_of :: "string \<Rightarrow> int option" where
  "minutes_of text =
     map_of [(''2026-11-04 09:00'', 540), (''2026-11-04 09:30'', 570),
             (''2026-11-04 10:00'', 600)] text"

section \<open>Routing precedence\<close>

text \<open>
  C4: the router runs at the start of a turn, on the state into which the incoming
  message has been merged, so the history it sees holds at least one message. On every
  such state it returns greeting when the history has exactly one message; otherwise
  cancellation when intent is cancel; otherwise, when intent is schedule, the stored
  stage, patient_lookup when none is stored; otherwise the stored stage, greeting when
  none is stored.
\<close>

theorem router_precedence:
  assumes "messages state \<noteq> []"
  shows "router state =
           (if length (messages state) = 1 then ''greeting''
            else if state_get (intent state) [] = ''cancel'' then ''cancellation''
            else if state_get (intent state) [] = ''schedule''
              then state_get (current_stage state) ''patient_lookup''
            else state_get (current_stage state) ''greeting'')"
  using assms by (cases "messages state") (simp_all add: router_def)

theorem router_precedence_witness:
  "router \<lparr>messages = [HumanMessage ''Hello''], current_stage = None, intent = None,
      patient_info = None, appointment_info = None, insurance_info = None,
      available_slots = None, appointment_id_key = None\<rparr> = ''greeting'' \<and>
   router \<lparr>messages = [HumanMessage ''Hello'', AIMessage Welcome, HumanMessage ''cancel it''],
      current_stage = Some ''greeting'', intent = Some ''cancel'',
      patient_info = None, appointment_info = None, insurance_info = None,
      available_slots = None, appointment_id_key = None\<rparr> = ''cancellation'' \<and>
   router \<lparr>messages = [HumanMessage ''Hello'', AIMessage Welcome, HumanMessage ''book''],
      current_stage = None, intent = Some ''schedule'',
      patient_info = None, appointment_info = None, insurance_info = None,
      available_slots = None, appointment_id_key = None\<rparr> = ''patient_lookup'' \<and>
   router \<lparr>messages = [HumanMessage ''Hello'', AIMessage Welcome, HumanMessage ''hm''],
      current_stage = None, intent = None,
      patient_info = None, appointment_info = None, insurance_info = None,
      available_slots = None, appointment_id_key = None\<rparr> = ''greeting''"
  using
    router_precedence [of "\<lparr>messages = [HumanMessage ''Hello''], current_stage = None,
      intent = None, patient_info = None, appointment_info = None, insurance_info = None,
      available_slots = None, appointment_id_key = None\<rparr>"]
    router_precedence [of "\<lparr>messages = [HumanMessage ''Hello'', AIMessage Welcome,
      HumanMessage ''cancel it''], current_stage = Some ''greeting'', intent = Some ''cancel'',
      patient_info = None, appointment_info = None, insurance_info = None,
      available_slots = None, appointment_id_key = None\<rparr>"]
    router_precedence [of "\<lparr>messages = [HumanMessage ''Hello'', AIMessage Welcome,
      HumanMessage ''book''], current_stage = None, intent = Some ''schedule'',
      patient_info = None, appointment_info = None, insurance_info = None,
      available_slots = None, appointment_id_key = None\<rparr>"]
    router_precedence [of "\<lparr>messages = [HumanMessage ''Hello'', AIMessage Welcome,
      HumanMessage ''hm''], current_stage = None, intent = None,
      patient_info = None, appointment_info = None, insurance_info = None,
      available_slots = None, appointment_id_key = None\<rparr>"]
  by (simp add: state_get_def)

section \<open>Keyword tests of the handlers\<close>

lemma get_update: "get (AList.update k v d) k' = (if k' = k then v else get d k')"
  by (simp add: get_def update_conv')

lemma any_keywordI:
  "keyword \<in> set keywords \<Longrightarrow> contains keyword content \<Longrightarrow> any_keyword keywords content"
  by (auto simp: any_keyword_def list_ex_iff)

text \<open>
  C9: on a greeting turn after the first (the history has more than one message and ends
  with the user's message), a message whose lower-case form contains one of the cancel
  keywords sets intent to cancel and moves to cancellation, never to patient_lookup: the
  cancel keywords are tested before the schedule keywords, whatever else the message
  contains.
\<close>

theorem greeting_cancel_first:
  assumes "1 < length (messages state)"
    and "last (messages state) = HumanMessage content"
    and "keyword \<in> set cancel_keywords"
    and "contains keyword (lower content)"
  shows "intent (greeting_node state) = Some ''cancel'' \<and>
         current_stage (greeting_node state) = Some ''cancellation'' \<and>
         current_stage (greeting_node state) \<noteq> Some ''patient_lookup'' \<and>
         messages (greeting_node state) = messages state @ [AIMessage CancelAck]"
  using assms by (simp add: greeting_node_def say_def any_keywordI)

text \<open>The message of the example holds the schedule keyword appointment as well.\<close>

theorem greeting_cancel_first_witness:
  "contains ''appointment'' (lower ''I want to Reschedule my appointment'') \<and>
   intent (greeting_node reschedule_turn) = Some ''cancel'' \<and>
   current_stage (greeting_node reschedule_turn) = Some ''cancellation''"
proof -
  have c: "contains ''reschedule'' (lower ''I want to Reschedule my appointment'')"
    by (simp add: lower_def lower_char_def)
  have a: "contains ''appointment'' (lower ''I want to Reschedule my appointment'')"
    by (simp add: lower_def lower_char_def)
  have k: "''reschedule'' \<in> set cancel_keywords"
    by (simp add: cancel_keywords_def)
  have l: "1 < length (messages reschedule_turn)"
    and m: "last (messages reschedule_turn) = HumanMessage ''I want to Reschedule my appointment''"
    by (simp_all add: reschedule_turn_def)
  from greeting_cancel_first [OF l m k c] a show ?thesis by simp
qed

text \<open>
  C8: an insurance_collection step whose user message, in lower case, contains one of the
  self-pay keywords (the bare no among them, so also inside north) stores the carrier
  Self-Pay and the member id and group number N/A and moves to appointment_confirmation.
  The result is the same state for every extraction function: the extraction is not
  called.
\<close>

theorem self_pay_shortcut:
  assumes "messages state \<noteq> []"
    and "last (messages state) = HumanMessage content"
    and "keyword \<in> set self_pay_keywords"
    and "contains keyword (lower content)"
  shows "\<exists>state' info'.
           (\<forall>extract. insurance_collection_node extract state = Inr state') \<and>
           insurance_info state' = Some info' \<and>
           get info' ''carrier'' = PStr ''Self-Pay'' \<and>
           get info' ''member_id'' = PStr ''N/A'' \<and>
           get info' ''group_number'' = PStr ''N/A'' \<and>
           current_stage state' = Some ''appointment_confirmation'' \<and>
           messages state' = messages state @ [AIMessage SelfPayAck]"
  using assms
  by (simp add: insurance_collection_node_def any_keywordI say_def dict_update_def get_update)

theorem self_pay_shortcut_witness:
  "\<exists>state'.
      insurance_collection_node (\<lambda>content. ExtractedDict [(''carrier'', JStr ''Aetna'')])
        north_turn = Inr state' \<and>
      current_stage state' = Some ''appointment_confirmation'' \<and>
      map_option (\<lambda>info. get info ''carrier'') (insurance_info state') =
        Some (PStr ''Self-Pay'')"
proof -
  have c: "contains ''no'' (lower ''Aetna, I live up North'')"
    by (simp add: lower_def lower_char_def)
  have k: "''no'' \<in> set self_pay_keywords"
    by (simp add: self_pay_keywords_def)
  have l: "messages north_turn \<noteq> []"
    and m: "last (messages north_turn) = HumanMessage ''Aetna, I live up North''"
    by (simp_all add: north_turn_def)
  from self_pay_shortcut [OF l m k c] show ?thesis by auto
qed

section \<open>Slot selection out of range\<close>

lemma strip_nine: "strip '' 9 '' = ''9''"
  by (simp add: strip_def lstrip.simps white_space_def)

lemma strip_blank: "strip [CHR 0x20, CHR 0xC2, CHR 0xA0] = []"
  by (simp add: strip_def lstrip.simps white_space_def)

lemma strip_member: "strip '' 987654321'' = ''987654321''"
  by (simp add: strip_def lstrip.simps white_space_def)

text \<open>
  C6: in a calendar_integration state with an offered list of N slots, a user message
  that parses as an integer outside 1..N is answered with the re-prompt for a number
  between 1 and N. Only the history changes: the offered list, the stage, the appointment
  bag and the store stay as they were.
\<close>

theorem out_of_range_reprompt:
  assumes "messages state \<noteq> []"
    and "last (messages state) = HumanMessage content"
    and "py_int (strip content) = Some n"
    and "available_slots state = Some offered"
    and "n < 1 \<or> int (length offered) < n"
    and "current_stage state = Some ''calendar_integration''"
  shows "\<exists>state'.
           calendar_integration_node f to_datetime now py_int st state = Inr (state', st) \<and>
           state' = state\<lparr>messages :=
                      messages state @ [AIMessage (ChooseValidSlot (length offered))]\<rparr> \<and>
           available_slots state' = available_slots state \<and>
           current_stage state' = current_stage state \<and>
           appointment_info state' = appointment_info state"
  using assms by (auto simp: calendar_integration_node_def say_def state_get_def)

theorem out_of_range_reprompt_witness:
  "calendar_integration_node no_faults (\<lambda>text. None) 0 int_nine (schedule_only five_slots)
     nine_turn =
   Inr (nine_turn\<lparr>messages := messages nine_turn @ [AIMessage (ChooseValidSlot 5)]\<rparr>,
        schedule_only five_slots)"
proof -
  have l: "messages nine_turn \<noteq> []"
    and m: "last (messages nine_turn) = HumanMessage '' 9 ''"
    and a: "available_slots nine_turn = Some five_slots"
    and c: "current_stage nine_turn = Some ''calendar_integration''"
    by (simp_all add: nine_turn_def)
  have p: "int_nine (strip '' 9 '') = Some 9"
    by (simp add: int_nine_def strip_nine)
  have r: "(9::int) < 1 \<or> int (length five_slots) < 9"
    by (simp add: five_slots_def)
  have n: "length five_slots = 5"
    by (simp add: five_slots_def)
  from out_of_range_reprompt
         [where py_int = int_nine and content = "'' 9 ''" and f = no_faults
            and to_datetime = "\<lambda>text. None" and now = 0 and st = "schedule_only five_slots",
          OF l m p a r c]
  show ?thesis by (simp add: n)
qed

section \<open>Insurance fields are never blanked\<close>

lemma merge_extracted_keeps_filled:
  "truthy (get info k) \<Longrightarrow> truthy (get (merge_extracted info kvs) k)"
proof (induction kvs arbitrary: info)
  case Nil
  then show ?case by simp
next
  case (Cons kv kvs)
  obtain key v where kv: "kv = (key, v)" by (cases kv)
  show ?case
  proof (cases v)
    case (JStr s)
    have "truthy (get (AList.update key (PStr (strip s)) info) k)" if "strip s \<noteq> []"
      using Cons.prems that by (simp add: get_update)
    with Cons kv JStr show ?thesis by simp
  next
    case (JOther t)
    with Cons kv show ?thesis by simp
  qed
qed

lemma merge_extracted_blank:
  "(\<And>s. (k, JStr s) \<in> set kvs \<Longrightarrow> strip s = []) \<Longrightarrow>
   get (merge_extracted info kvs) k = get info k"
proof (induction kvs arbitrary: info)
  case Nil
  then show ?case by simp
next
  case (Cons kv kvs)
  obtain key v where kv: "kv = (key, v)" by (cases kv)
  have rest: "get (merge_extracted info' kvs) k = get info' k" for info'
    using Cons by simp
  show ?case
  proof (cases v)
    case (JStr s)
    show ?thesis
    proof (cases "key = k")
      case True
      with Cons.prems kv JStr have "strip s = []" by simp
      with kv JStr rest show ?thesis by simp
    next
      case False
      with kv JStr rest show ?thesis by (simp add: get_update)
    qed
  next
    case (JOther t)
    with kv rest show ?thesis by simp
  qed
qed

lemma ask_insurance_info: "insurance_info (ask_insurance state info) = Some info"
  by (simp add: ask_insurance_def say_def Let_def)

text \<open>
  C7: every insurance_collection step (on a state with a message) returns a state in
  which each field that was filled before, carrier, member_id and group_number among
  them, is still filled. When the step runs the extraction (the message is the user's and
  matches no self-pay keyword) and every string the extraction returns for a field is
  empty or blank, the field keeps the value it had.
\<close>

theorem insurance_fields_preserved:
  assumes "messages state \<noteq> []"
  shows "\<exists>state' info'.
           insurance_collection_node extract state = Inr state' \<and>
           insurance_info state' = Some info' \<and>
           (truthy (get (state_get (insurance_info state) []) k) \<longrightarrow> truthy (get info' k)) \<and>
           (last (messages state) = HumanMessage content \<and>
            \<not> any_keyword self_pay_keywords (lower content) \<and>
            extract content = ExtractedDict kvs \<and>
            (\<forall>s. (k, JStr s) \<in> set kvs \<longrightarrow> strip s = [])
            \<longrightarrow> get info' k = get (state_get (insurance_info state) []) k)"
proof (cases "last (messages state)")
  case (AIMessage r)
  with assms show ?thesis
    by (simp add: insurance_collection_node_def ask_insurance_info)
next
  case (HumanMessage c)
  show ?thesis
  proof (cases "any_keyword self_pay_keywords (lower c)")
    case True
    with assms HumanMessage show ?thesis
      by (auto simp: insurance_collection_node_def say_def get_update dict_update_def)
  next
    case False
    with assms HumanMessage show ?thesis
      by (cases "extract c")
         (auto simp: insurance_collection_node_def ask_insurance_info
            merge_extracted_keeps_filled merge_extracted_blank)
  qed
qed

text \<open>
  The carrier Aetna survives an extraction that returns a blank carrier; the member id is
  stored stripped, and the empty group number is not stored.
\<close>

theorem insurance_fields_preserved_witness:
  "\<exists>state'.
      insurance_collection_node blank_carrier aetna_turn = Inr state' \<and>
      insurance_info state' =
        Some [(''carrier'', PStr ''Aetna''), (''member_id'', PStr ''987654321'')]"
proof -
  have l: "messages aetna_turn \<noteq> []"
    by (simp add: aetna_turn_def)
  have e: "insurance_collection_node blank_carrier aetna_turn =
             Inr (aetna_turn\<lparr>messages := messages aetna_turn @
                      [AIMessage (InsurancePromptMissing ''group_number'')],
                    insurance_info :=
                      Some [(''carrier'', PStr ''Aetna''), (''member_id'', PStr ''987654321'')]\<rparr>)"
    by (simp add: insurance_collection_node_def aetna_turn_def blank_carrier_def
          any_keyword_def self_pay_keywords_def lower_def lower_char_def state_get_def
          strip_blank strip_member ask_insurance_def required_def get_def say_def)
  from insurance_fields_preserved [of aetna_turn blank_carrier "''carrier''", OF l] e
  show ?thesis by auto
qed

section \<open>The slot query\<close>

lemma with_datetime_sound:
  "with_datetime to_datetime df = Some dated \<Longrightarrow> (r, t) \<in> set dated \<Longrightarrow>
   slot_datetime to_datetime r = Some t \<and> r \<in> set df"
proof (induction df arbitrary: dated)
  case Nil
  then show ?case by simp
next
  case (Cons a df)
  then show ?case
    by (auto split: option.splits)
qed

lemma sorted_by_datetime:
  assumes "sorted (map snd ys)"
    and "\<And>r t. (r, t) \<in> set ys \<Longrightarrow> slot_datetime to_datetime r = Some t"
  shows "sorted_wrt (\<lambda>a b. \<exists>ta tb. slot_datetime to_datetime a = Some ta \<and>
                           slot_datetime to_datetime b = Some tb \<and> ta \<le> tb) (map fst ys)"
proof -
  from assms(1) have "sorted_wrt (\<lambda>x y. snd x \<le> snd y) ys"
    by (simp add: sorted_wrt_map)
  then have "sorted_wrt (\<lambda>x y. \<exists>ta tb. slot_datetime to_datetime (fst x) = Some ta \<and>
                           slot_datetime to_datetime (fst y) = Some tb \<and> ta \<le> tb) ys"
  proof (rule sorted_wrt_mono_rel [rotated])
    fix x y
    assume "x \<in> set ys" "y \<in> set ys" "snd x \<le> snd y"
    with assms(2) [of "fst x" "snd x"] assms(2) [of "fst y" "snd y"]
    show "\<exists>ta tb. slot_datetime to_datetime (fst x) = Some ta \<and>
                   slot_datetime to_datetime (fst y) = Some tb \<and> ta \<le> tb"
      by simp
  qed
  then show ?thesis by (simp add: sorted_wrt_map)
qed

text \<open>
  C5: for every schedule table and every chosen doctor (a non-empty name), the slot query
  returns at most 8 slots; every returned slot is a row of the schedule with
  \<open>is_available\<close> true, of the chosen doctor, whose date and time parse to a moment
  strictly after the time of the query; and the returned list is in ascending order of
  that moment.
\<close>

theorem slot_query_result:
  assumes "d \<noteq> []"
  shows "length (get_available_slots f to_datetime now st (PStr d)) \<le> 8 \<and>
         (\<forall>s \<in> set (get_available_slots f to_datetime now st (PStr d)).
            is_available s \<and> doctor_name s = d \<and>
            (\<exists>t. slot_datetime to_datetime s = Some t \<and> now < t) \<and>
            s \<in> set (rows (schedule_file st))) \<and>
         sorted_wrt (\<lambda>a b. \<exists>ta tb. slot_datetime to_datetime a = Some ta \<and>
                              slot_datetime to_datetime b = Some tb \<and> ta \<le> tb)
           (get_available_slots f to_datetime now st (PStr d))"
proof (cases "schedule_file st")
  case Missing
  then show ?thesis by (simp add: get_available_slots_def)
next
  case (Rows df)
  show ?thesis
  proof (cases "with_datetime to_datetime df")
    case None
    with Rows show ?thesis by (simp add: get_available_slots_def)
  next
    case (Some dated)
    define chosen where
      "chosen = filter (\<lambda>(r, t). cell_eq (PStr (doctor_name r)) (PStr d))
                  (filter (\<lambda>(r, t). is_available r) (filter (\<lambda>(r, t). now < t) dated))"
    define ordered where "ordered = take 8 (sort_key snd chosen)"
    have res: "get_available_slots f to_datetime now st (PStr d) = map fst ordered
               \<or> get_available_slots f to_datetime now st (PStr d) = []"
      using Rows Some assms
      by (simp add: get_available_slots_def chosen_def ordered_def)
    have mem: "(r, t) \<in> set chosen" if "(r, t) \<in> set ordered" for r t
      using that in_set_takeD [of "(r, t)" 8 "sort_key snd chosen"]
      by (simp add: ordered_def)
    have props: "is_available r \<and> doctor_name r = d \<and> slot_datetime to_datetime r = Some t \<and>
                 now < t \<and> r \<in> set df" if "(r, t) \<in> set ordered" for r t
      using mem [OF that] with_datetime_sound [OF Some, of r t]
      by (simp add: chosen_def)
    have "sorted (map snd (sort_key snd chosen))"
      by (rule sorted_sort_key)
    then have "sorted (take 8 (map snd (sort_key snd chosen)))"
      by (rule sorted_wrt_take)
    then have srt: "sorted (map snd ordered)"
      by (simp add: ordered_def take_map)
    have len: "length (map fst ordered) \<le> 8"
      by (simp add: ordered_def)
    have ord: "sorted_wrt (\<lambda>a b. \<exists>ta tb. slot_datetime to_datetime a = Some ta \<and>
                              slot_datetime to_datetime b = Some tb \<and> ta \<le> tb) (map fst ordered)"
      using srt props by (intro sorted_by_datetime) auto
    have all: "\<forall>s \<in> set (map fst ordered).
            is_available s \<and> doctor_name s = d \<and>
            (\<exists>t. slot_datetime to_datetime s = Some t \<and> now < t) \<and>
            s \<in> set (rows (schedule_file st))"
      using props Rows by fastforce
    from res show ?thesis
    proof
      assume "get_available_slots f to_datetime now st (PStr d) = map fst ordered"
      with len ord all show ?thesis by simp
    next
      assume "get_available_slots f to_datetime now st (PStr d) = []"
      then show ?thesis by simp
    qed
  qed
qed

text \<open>
  On the example clinic the query for Dr. Chen skips the other doctor's slot and the
  booked one, and returns 09:00 before 09:30 although the table lists them the other way
  round.
\<close>

theorem slot_query_result_witness:
  "''Dr. Emily Chen'' \<noteq> [] \<and>
   get_available_slots no_faults minutes_of 0 clinic (PStr ''Dr. Emily Chen'') =
     [chen_slot ''2026-11-04'' ''09:00'' True, chen_slot ''2026-11-04'' ''09:30'' True] \<and>
   length (get_available_slots no_faults minutes_of 0 clinic (PStr ''Dr. Emily Chen'')) \<le> 8"
proof -
  have d: "''Dr. Emily Chen'' \<noteq> []" by simp
  have e: "get_available_slots no_faults minutes_of 0 clinic (PStr ''Dr. Emily Chen'') =
     [chen_slot ''2026-11-04'' ''09:00'' True, chen_slot ''2026-11-04'' ''09:30'' True]"
    by (simp add: get_available_slots_def clinic_def no_faults_def minutes_of_def
          slot_datetime_def chen_slot_def rodriguez_slot_def)
  from slot_query_result [OF d, of no_faults minutes_of 0 clinic] e d show ?thesis by simp
qed

section \<open>What the table operations leave alone\<close>

lemma no_faults_simps [simp]:
  "\<not> patients_read_fails no_faults" "\<not> patients_write_fails no_faults"
  "\<not> schedule_read_fails no_faults" "\<not> schedule_write_fails no_faults"
  "\<not> appointments_read_fails no_faults" "\<not> appointments_write_fails no_faults"
  by (simp_all add: no_faults_def)


lemma usa_patients [simp]:
  "patients_file (update_schedule_availability f st doctor day hour avail) = patients_file st"
  by (simp add: update_schedule_availability_def split: csv_file.split)

lemma usa_appointments [simp]:
  "appointments_file (update_schedule_availability f st doctor day hour avail) =
   appointments_file st"
  by (simp add: update_schedule_availability_def split: csv_file.split)

lemma usa_schedule_read_fails:
  "schedule_read_fails f \<Longrightarrow>
   schedule_file (update_schedule_availability f st doctor day hour avail) = schedule_file st"
  by (auto simp: update_schedule_availability_def split: csv_file.split)

lemma usa_schedule_rows:
  "\<not> schedule_read_fails f \<Longrightarrow> \<not> schedule_write_fails f \<Longrightarrow>
   rows (schedule_file (update_schedule_availability f st doctor day hour avail)) =
   map (set_flag doctor day hour avail) (rows (schedule_file st))"
  by (auto simp: update_schedule_availability_def set_flag_def split: csv_file.split)

lemma anp_schedule [simp]:
  "schedule_file (add_new_patient read_text f st p i) = schedule_file st"
  by (simp add: add_new_patient_def split: csv_file.split)

lemma anp_appointments [simp]:
  "appointments_file (add_new_patient read_text f st p i) = appointments_file st"
  by (simp add: add_new_patient_def split: csv_file.split)


lemma patient_step_frame [simp]:
  "schedule_file (patient_step read_text f st p i) = schedule_file st"
  "appointments_file (patient_step read_text f st p i) = appointments_file st"
  by (simp_all add: patient_step_def)

lemma save_appointment_read_fails:
  "ledger_read_fails f st \<Longrightarrow>
   save_appointment read_text f token now_text st p a i =
     (patient_step read_text f st p i, ''ERROR'')"
  by (auto simp: save_appointment_def ledger_read_fails_def patient_step_def Let_def
           split: csv_file.split)

lemma save_appointment_write_fails:
  "ledger_write_fails f st \<Longrightarrow>
   save_appointment read_text f token now_text st p a i =
     ((patient_step read_text f st p i)\<lparr>appointments_file := appointments_left f\<rparr>, ''ERROR'')"
  by (auto simp: save_appointment_def ledger_read_fails_def ledger_write_fails_def
           patient_step_def Let_def split: csv_file.split)

lemma save_appointment_writes:
  "\<not> ledger_read_fails f st \<Longrightarrow> \<not> ledger_write_fails f st \<Longrightarrow>
   save_appointment read_text f token now_text st p a i =
     (update_schedule_availability f
        ((patient_step read_text f st p i)
           \<lparr>appointments_file :=
              Rows (rows (appointments_file st) @
                      [appointment_data read_text token now_text p a i])\<rparr>)
        (get a ''doctor_name'') (get a ''date'') (get a ''time'') False,
      token)"
  by (auto simp: save_appointment_def ledger_read_fails_def ledger_write_fails_def
           patient_step_def Let_def split: csv_file.split)

lemma ledger_ok:
  "\<not> appointments_read_fails f \<Longrightarrow> \<not> appointments_write_fails f \<Longrightarrow>
   \<not> ledger_read_fails f st \<and> \<not> ledger_write_fails f st"
  by (simp add: ledger_read_fails_def ledger_write_fails_def)

section \<open>The booking commit\<close>

text \<open>
  C1 (amended): the commit never changes the schedule without appending the ledger
  record. When the ledger cannot be read or written, \<open>save_appointment\<close> returns ERROR
  and leaves the schedule as it was; the ledger is as it was when its read failed, and
  holds what the failed write left otherwise. When the ledger is read and written, the
  commit returns the new identifier and appends one record, whose status is Confirmed
  (a text that is read back as it is), and when the schedule can be read and written as
  well, every row of the chosen doctor, date and time is set unavailable.
\<close>

theorem booking_commit:
  assumes "save_appointment read_text f token now_text st p a i = (st', ident)"
  shows "(schedule_file st' \<noteq> schedule_file st \<longrightarrow>
            appointments_file st' =
              Rows (rows (appointments_file st) @
                      [appointment_data read_text token now_text p a i])) \<and>
         (ledger_read_fails f st \<or> ledger_write_fails f st \<longrightarrow>
            ident = ''ERROR'' \<and> schedule_file st' = schedule_file st) \<and>
         (ledger_read_fails f st \<longrightarrow> appointments_file st' = appointments_file st) \<and>
         (ledger_write_fails f st \<longrightarrow> appointments_file st' = appointments_left f) \<and>
         (\<not> ledger_read_fails f st \<and> \<not> ledger_write_fails f st \<longrightarrow>
            ident = token \<and>
            appointments_file st' =
              Rows (rows (appointments_file st) @
                      [appointment_data read_text token now_text p a i]) \<and>
            (reads_back read_text ''Confirmed'' \<longrightarrow>
               status (appointment_data read_text token now_text p a i) = PStr ''Confirmed'') \<and>
            (\<not> schedule_read_fails f \<and> \<not> schedule_write_fails f \<longrightarrow>
               rows (schedule_file st') =
                 map (set_flag (get a ''doctor_name'') (get a ''date'') (get a ''time'') False)
                   (rows (schedule_file st))))"
proof -
  consider (unread) "ledger_read_fails f st"
    | (unwritten) "\<not> ledger_read_fails f st" "ledger_write_fails f st"
    | (written) "\<not> ledger_read_fails f st" "\<not> ledger_write_fails f st"
    by blast
  then show ?thesis
  proof cases
    case unread
    then have "\<not> ledger_write_fails f st"
      by (simp add: ledger_write_fails_def)
    with unread assms show ?thesis
      by (auto simp: save_appointment_read_fails)
  next
    case unwritten
    with assms show ?thesis
      by (auto simp: save_appointment_write_fails)
  next
    case written
    have confirmed: "status (appointment_data read_text token now_text p a i) = PStr ''Confirmed''"
      if "reads_back read_text ''Confirmed''"
      using that by (simp add: appointment_data_def reads_back_def)
    from written assms have ident: "ident = token"
      and st': "st' = update_schedule_availability f
          ((patient_step read_text f st p i)
             \<lparr>appointments_file :=
                Rows (rows (appointments_file st) @
                        [appointment_data read_text token now_text p a i])\<rparr>)
          (get a ''doctor_name'') (get a ''date'') (get a ''time'') False"
      by (auto simp: save_appointment_writes)
    have ledger: "appointments_file st' =
                Rows (rows (appointments_file st) @
                        [appointment_data read_text token now_text p a i])"
      by (simp add: st')
    have flipped: "rows (schedule_file st') =
                   map (set_flag (get a ''doctor_name'') (get a ''date'') (get a ''time'') False)
                     (rows (schedule_file st))"
      if "\<not> schedule_read_fails f" "\<not> schedule_write_fails f"
      using that by (simp add: st' usa_schedule_rows)
    from written ident ledger confirmed flipped show ?thesis by blast
  qed
qed

text \<open>
  The appointment_confirmation handler changes the store by this commit and by nothing
  else, and moves to form_distribution whatever the commit returned.
\<close>

lemma confirmation_commits:
  assumes "appointment_confirmation_node read_text f token now_text st state = Inr (state', st')"
  shows "\<exists>p a i. patient_info state = Some p \<and> appointment_info state = Some a \<and>
           insurance_info state = Some i \<and>
           st' = fst (save_appointment read_text f token now_text st p a i) \<and>
           current_stage state' = Some ''form_distribution'' \<and>
           appointment_id_key state' =
             Some (snd (save_appointment read_text f token now_text st p a i))"
proof -
  from assms obtain p a i where bags: "patient_info state = Some p"
    "appointment_info state = Some a" "insurance_info state = Some i"
    by (auto simp: appointment_confirmation_node_def split: option.splits)
  obtain st1 ident where
    saved: "save_appointment read_text f token now_text st p a i = (st1, ident)"
    by (cases "save_appointment read_text f token now_text st p a i")
  with assms bags have "st' = st1" "current_stage state' = Some ''form_distribution''"
    "appointment_id_key state' = Some ident"
    by (auto simp: appointment_confirmation_node_def say_def)
  with bags saved show ?thesis by simp
qed

section \<open>Booking, then cancelling\<close>

lemma cell_eq_PStr [simp]: "cell_eq c (PStr s) \<longleftrightarrow> c = PStr s"
  by (cases c) auto



lemma set_flag_twice [simp]:
  "set_flag doctor day hour avail (set_flag doctor day hour avail' r) =
   set_flag doctor day hour avail r"
  by (simp add: set_flag_def slot_mask_def)

lemma rmp_schedule [simp]: "schedule_file (remove_new_patient f st appt) = schedule_file st"
  by (simp add: remove_new_patient_def split: csv_file.split pyval.split)

lemma rmp_appointments [simp]:
  "appointments_file (remove_new_patient f st appt) = appointments_file st"
  by (simp add: remove_new_patient_def split: csv_file.split pyval.split)






section \<open>The claims on the example clinic\<close>

lemma clinic_files:
  "patients_file clinic = Rows [john_record, jane_record]"
  "appointments_file clinic = Rows []"
  "schedule_file clinic = Rows [chen_slot ''2026-11-04'' ''09:30'' True,
                            rodriguez_slot ''2026-11-04'' ''09:00'' True,
                            chen_slot ''2026-11-04'' ''09:00'' True,
                            chen_slot ''2026-11-04'' ''10:00'' False]"
  by (simp_all add: clinic_def)

lemma text_reader_text: "s \<notin> set na_values \<Longrightarrow> s \<noteq> [] \<Longrightarrow> reads_back text_reader s"
  by (simp add: reads_back_def text_reader_def)

lemma reads_back_examples:
  "reads_back text_reader ''Confirmed''" "reads_back text_reader ''A1B2C3D4''"
  "reads_back text_reader ''Dr. Emily Chen''" "reads_back text_reader ''2026-11-04''"
  "reads_back text_reader ''09:00''" "reads_back text_reader ''Jane''"
  "reads_back text_reader ''Smith''" "reads_back text_reader ''1990-07-22''"
  "reads_back text_reader ''Amy''" "reads_back text_reader ''Davis''"
  "reads_back text_reader ''1988-11-30''"
  by (simp_all add: text_reader_text na_values_def)

lemma new_patients:
  "get jane_info ''is_returning'' = PBool False" "get amy_info ''is_returning'' = PBool False"
  by (simp_all add: jane_info_def amy_info_def get_def)

lemma identities:
  "get jane_info ''first_name'' = PStr ''Jane''" "get jane_info ''last_name'' = PStr ''Smith''"
  "get jane_info ''dob'' = PStr ''1990-07-22''"
  "get amy_info ''first_name'' = PStr ''Amy''" "get amy_info ''last_name'' = PStr ''Davis''"
  "get amy_info ''dob'' = PStr ''1988-11-30''"
  by (simp_all add: jane_info_def amy_info_def get_def)

lemma chen_booking_slot:
  "get chen_booking ''doctor_name'' = PStr ''Dr. Emily Chen''"
  "get chen_booking ''date'' = PStr ''2026-11-04''"
  "get chen_booking ''time'' = PStr ''09:00''"
  by (simp_all add: chen_booking_def get_def)

lemma set_flag_chen:
  "set_flag (PStr ''Dr. Emily Chen'') (PStr day) (PStr hour) avail (chen_slot day' hour' b) =
   (if day' = day \<and> hour' = hour then chen_slot day' hour' avail else chen_slot day' hour' b)"
  by (simp add: set_flag_def slot_mask_def chen_slot_def)

lemma set_flag_rodriguez:
  "set_flag (PStr ''Dr. Emily Chen'') day hour avail (rodriguez_slot day' hour' b) =
   rodriguez_slot day' hour' b"
  by (simp add: set_flag_def slot_mask_def rodriguez_slot_def)

lemma new_patient_id_clinic: "new_patient_id [john_record, jane_record] = 3"
  by (simp add: new_patient_id_def wrap64_def john_record_def jane_record_def)

lemma new_patient_key:
  "get p ''first_name'' = PStr fname \<Longrightarrow> reads_back text_reader fname \<Longrightarrow>
   get p ''last_name'' = PStr lname \<Longrightarrow> reads_back text_reader lname \<Longrightarrow>
   get p ''dob'' = PStr birth \<Longrightarrow> reads_back text_reader birth \<Longrightarrow>
   first_name (new_patient text_reader pid p i) = PStr fname \<and>
   last_name (new_patient text_reader pid p i) = PStr lname \<and>
   dob (new_patient text_reader pid p i) = PStr birth \<and>
   is_returning (new_patient text_reader pid p i) = PBool True"
  by (simp add: new_patient_def reads_back_def)

lemma ledger_row_cells:
  "get p ''is_returning'' = PBool False \<Longrightarrow>
   get p ''first_name'' = PStr fname \<Longrightarrow> reads_back text_reader fname \<Longrightarrow>
   get p ''last_name'' = PStr lname \<Longrightarrow> reads_back text_reader lname \<Longrightarrow>
   get p ''dob'' = PStr birth \<Longrightarrow> reads_back text_reader birth \<Longrightarrow>
   appointment_id (appointment_data text_reader ''A1B2C3D4'' created p chen_booking i) =
     PStr ''A1B2C3D4'' \<and>
   appt_doctor_name (appointment_data text_reader ''A1B2C3D4'' created p chen_booking i) =
     PStr ''Dr. Emily Chen'' \<and>
   appointment_date (appointment_data text_reader ''A1B2C3D4'' created p chen_booking i) =
     PStr ''2026-11-04'' \<and>
   appointment_time (appointment_data text_reader ''A1B2C3D4'' created p chen_booking i) =
     PStr ''09:00'' \<and>
   is_returning_patient (appointment_data text_reader ''A1B2C3D4'' created p chen_booking i) =
     PBool False \<and>
   patient_first_name (appointment_data text_reader ''A1B2C3D4'' created p chen_booking i) =
     PStr fname \<and>
   patient_last_name (appointment_data text_reader ''A1B2C3D4'' created p chen_booking i) =
     PStr lname \<and>
   patient_dob (appointment_data text_reader ''A1B2C3D4'' created p chen_booking i) =
     PStr birth \<and>
   status (appointment_data text_reader ''A1B2C3D4'' created p chen_booking i) =
     PStr ''Confirmed''"
  using reads_back_examples(1-5)
  by (simp add: appointment_data_def reads_back_def chen_booking_slot)

text \<open>
  The booking of Dr. Chen's slot at 09:00 on the clinic, by a patient flagged new, when
  no read and no write raises.
\<close>

lemma booked_clinic:
  assumes "get p ''is_returning'' = PBool False"
  shows "save_appointment text_reader no_faults ''A1B2C3D4'' created clinic p chen_booking i =
           (\<lparr>patients_file = Rows [john_record, jane_record, new_patient text_reader 3 p i],
             schedule_file = Rows [chen_slot ''2026-11-04'' ''09:30'' True,
                                   rodriguez_slot ''2026-11-04'' ''09:00'' True,
                                   chen_slot ''2026-11-04'' ''09:00'' False,
                                   chen_slot ''2026-11-04'' ''10:00'' False],
             appointments_file =
               Rows [appointment_data text_reader ''A1B2C3D4'' created p chen_booking i]\<rparr>,
            ''A1B2C3D4'')"
proof -
  have "patient_step text_reader no_faults clinic p i =
          clinic\<lparr>patients_file := Rows [john_record, jane_record, new_patient text_reader 3 p i]\<rparr>"
    using assms
    by (simp add: patient_step_def add_new_patient_def clinic_files new_patient_id_clinic)
  then show ?thesis
    using ledger_ok [of no_faults clinic]
    by (simp add: save_appointment_writes update_schedule_availability_def clinic_def
          chen_booking_slot set_flag_chen set_flag_rodriguez)
qed

lemma jane_booked_store:
  "jane_booked =
     \<lparr>patients_file =
        Rows [john_record, jane_record, new_patient text_reader 3 jane_info self_pay_info],
      schedule_file = Rows [chen_slot ''2026-11-04'' ''09:30'' True,
                            rodriguez_slot ''2026-11-04'' ''09:00'' True,
                            chen_slot ''2026-11-04'' ''09:00'' False,
                            chen_slot ''2026-11-04'' ''10:00'' False],
      appointments_file =
        Rows [appointment_data text_reader ''A1B2C3D4'' ''2026-11-03 10:15:00'' jane_info
                chen_booking self_pay_info]\<rparr>"
  by (simp add: jane_booked_def booked_clinic new_patients)

lemma amy_booked_store:
  "amy_booked =
     \<lparr>patients_file =
        Rows [john_record, jane_record, new_patient text_reader 3 amy_info self_pay_info],
      schedule_file = Rows [chen_slot ''2026-11-04'' ''09:30'' True,
                            rodriguez_slot ''2026-11-04'' ''09:00'' True,
                            chen_slot ''2026-11-04'' ''09:00'' False,
                            chen_slot ''2026-11-04'' ''10:00'' False],
      appointments_file =
        Rows [appointment_data text_reader ''A1B2C3D4'' ''2026-11-03 10:15:00'' amy_info
                chen_booking self_pay_info]\<rparr>"
  by (simp add: amy_booked_def booked_clinic new_patients)

text \<open>
  C1, as stated, fails when the schedule cannot be read: the failure is caught inside
  the schedule update, so the booking returns its identifier, the ledger holds the
  Confirmed record, and the slot of Dr. Chen at 09:00 is still available.
\<close>

theorem ledger_without_flip_counterexample:
  "snd (save_appointment text_reader schedule_read_fault ''A1B2C3D4'' ''2026-11-03 10:15:00''
       clinic jane_info chen_booking self_pay_info) = ''A1B2C3D4'' \<and>
   appointments_file (fst (save_appointment text_reader schedule_read_fault ''A1B2C3D4''
       ''2026-11-03 10:15:00'' clinic jane_info chen_booking self_pay_info)) =
     Rows [appointment_data text_reader ''A1B2C3D4'' ''2026-11-03 10:15:00'' jane_info
             chen_booking self_pay_info] \<and>
   status (appointment_data text_reader ''A1B2C3D4'' ''2026-11-03 10:15:00'' jane_info
             chen_booking self_pay_info) = PStr ''Confirmed'' \<and>
   schedule_file (fst (save_appointment text_reader schedule_read_fault ''A1B2C3D4''
       ''2026-11-03 10:15:00'' clinic jane_info chen_booking self_pay_info)) =
     schedule_file clinic \<and>
   chen_slot ''2026-11-04'' ''09:00'' True \<in> set (rows (schedule_file clinic))"
proof -
  have "\<not> ledger_read_fails schedule_read_fault clinic"
    "\<not> ledger_write_fails schedule_read_fault clinic"
    by (simp_all add: ledger_read_fails_def ledger_write_fails_def schedule_read_fault_def)
  moreover have "schedule_read_fails schedule_read_fault"
    by (simp add: schedule_read_fault_def)
  moreover have "status (appointment_data text_reader ''A1B2C3D4'' ''2026-11-03 10:15:00''
             jane_info chen_booking self_pay_info) = PStr ''Confirmed''"
    using ledger_row_cells [OF new_patients(1) identities(1) reads_back_examples(6)
        identities(2) reads_back_examples(7) identities(3) reads_back_examples(8)]
    by simp
  ultimately show ?thesis
    by (simp add: save_appointment_writes usa_schedule_read_fails clinic_files)
qed

text \<open>Without faults the same booking appends the record and sets the slot unavailable.\<close>

theorem booking_commit_witness:
  "snd (save_appointment text_reader no_faults ''A1B2C3D4'' ''2026-11-03 10:15:00''
          clinic jane_info chen_booking self_pay_info) = ''A1B2C3D4'' \<and>
   appointments_file (fst (save_appointment text_reader no_faults ''A1B2C3D4''
          ''2026-11-03 10:15:00'' clinic jane_info chen_booking self_pay_info)) =
     Rows [appointment_data text_reader ''A1B2C3D4'' ''2026-11-03 10:15:00'' jane_info
             chen_booking self_pay_info] \<and>
   status (appointment_data text_reader ''A1B2C3D4'' ''2026-11-03 10:15:00'' jane_info
             chen_booking self_pay_info) = PStr ''Confirmed'' \<and>
   rows (schedule_file (fst (save_appointment text_reader no_faults ''A1B2C3D4''
          ''2026-11-03 10:15:00'' clinic jane_info chen_booking self_pay_info))) =
     [chen_slot ''2026-11-04'' ''09:30'' True, rodriguez_slot ''2026-11-04'' ''09:00'' True,
      chen_slot ''2026-11-04'' ''09:00'' False, chen_slot ''2026-11-04'' ''10:00'' False]"
proof -
  have ok: "\<not> ledger_read_fails no_faults clinic" "\<not> ledger_write_fails no_faults clinic"
    by (simp_all add: ledger_read_fails_def ledger_write_fails_def)
  from booking_commit [OF prod.collapse [symmetric], of text_reader no_faults "''A1B2C3D4''"
      "''2026-11-03 10:15:00''" clinic jane_info chen_booking self_pay_info]
    ok reads_back_examples(1)
  show ?thesis
    by (simp add: chen_booking_slot set_flag_chen set_flag_rodriguez clinic_files)
qed

section \<open>A second record of a patient on file\<close>

lemma clinic_unique: "patients_unique clinic"
  by (simp add: patients_unique_def clinic_files patient_key_def john_record_def jane_record_def)

text \<open>
  C2 fails in the code, on the built-in sample data. Jane Smith is on file with
  \<open>is_returning\<close> false, so the lookup reports her as new, and the booking appends a
  second record of her identity tuple. The insert is meant for patients who are not on
  file, and its record is meant to make the patient returning from then on: after the
  booking the lookup of Jane Smith still answers False, because it reads the first of
  the two records, while the lookup of a patient who was not on file answers True.
\<close>

theorem booking_duplicates_patient:
  "patients_unique clinic \<and>
   lookup_patient no_faults iso_dates clinic ''Jane'' ''Smith'' ''1990-07-22'' = False \<and>
   get jane_info ''is_returning'' = PBool False \<and>
   map patient_key (rows (patients_file jane_booked)) =
     [(PStr ''John'', PStr ''Doe'', PStr ''1985-03-15''),
      (PStr ''Jane'', PStr ''Smith'', PStr ''1990-07-22''),
      (PStr ''Jane'', PStr ''Smith'', PStr ''1990-07-22'')] \<and>
   \<not> patients_unique jane_booked \<and>
   lookup_patient no_faults iso_dates jane_booked ''Jane'' ''Smith'' ''1990-07-22'' = False \<and>
   lookup_patient no_faults iso_dates amy_booked ''Amy'' ''Davis'' ''1988-11-30'' = True"
proof -
  have jane: "first_name (new_patient text_reader 3 jane_info self_pay_info) = PStr ''Jane'' \<and>
      last_name (new_patient text_reader 3 jane_info self_pay_info) = PStr ''Smith'' \<and>
      dob (new_patient text_reader 3 jane_info self_pay_info) = PStr ''1990-07-22'' \<and>
      is_returning (new_patient text_reader 3 jane_info self_pay_info) = PBool True"
    by (rule new_patient_key [OF identities(1) reads_back_examples(6) identities(2)
          reads_back_examples(7) identities(3) reads_back_examples(8)])
  have amy: "first_name (new_patient text_reader 3 amy_info self_pay_info) = PStr ''Amy'' \<and>
      last_name (new_patient text_reader 3 amy_info self_pay_info) = PStr ''Davis'' \<and>
      dob (new_patient text_reader 3 amy_info self_pay_info) = PStr ''1988-11-30'' \<and>
      is_returning (new_patient text_reader 3 amy_info self_pay_info) = PBool True"
    by (rule new_patient_key [OF identities(4) reads_back_examples(9) identities(5)
          reads_back_examples(10) identities(6) reads_back_examples(11)])
  have before: "lookup_patient no_faults iso_dates clinic ''Jane'' ''Smith'' ''1990-07-22'' = False"
    by (simp add: lookup_patient_def iso_dates_def clinic_files patient_mask_def
          john_record_def jane_record_def lower_def lower_char_def)
  have keys: "map patient_key (rows (patients_file jane_booked)) =
     [(PStr ''John'', PStr ''Doe'', PStr ''1985-03-15''),
      (PStr ''Jane'', PStr ''Smith'', PStr ''1990-07-22''),
      (PStr ''Jane'', PStr ''Smith'', PStr ''1990-07-22'')]"
    using jane by (simp add: jane_booked_store patient_key_def john_record_def jane_record_def)
  have after: "lookup_patient no_faults iso_dates jane_booked ''Jane'' ''Smith'' ''1990-07-22'' =
      False"
    by (simp add: lookup_patient_def iso_dates_def jane_booked_store patient_mask_def
          john_record_def jane_record_def lower_def lower_char_def)
  have other: "lookup_patient no_faults iso_dates amy_booked ''Amy'' ''Davis'' ''1988-11-30'' =
      True"
    using amy
    by (simp add: lookup_patient_def iso_dates_def amy_booked_store patient_mask_def
          john_record_def jane_record_def lower_def lower_char_def)
  from keys have dup: "\<not> patients_unique jane_booked"
    by (simp add: patients_unique_def)
  from clinic_unique before new_patients(1) keys dup after other show ?thesis
    by (intro conjI)
qed

section \<open>Cancelling an unknown identifier\<close>

text \<open>
  C10: for an identifier that does not occur in the ledger, the ledger file being missing
  or empty included, \<open>cancel_appointment\<close> returns False and the store with its three
  tables is returned as it was, whatever reads or writes would fail.
\<close>

theorem cancel_unknown_id:
  assumes "PStr ident \<notin> set (map appointment_id (rows (appointments_file st)))"
  shows "cancel_appointment read_text f now_text st ident reason = (st, False)"
proof (cases "appointments_file st")
  case Missing
  then show ?thesis by (simp add: cancel_appointment_def)
next
  case (Rows df)
  from assms Rows have "\<forall>r\<in>set df. appointment_id r \<noteq> PStr ident"
    by force
  then have "filter (\<lambda>r. cell_eq (appointment_id r) (PStr ident)) df = []"
    by (simp add: filter_empty_conv)
  with Rows show ?thesis by (simp add: cancel_appointment_def)
qed

theorem cancel_unknown_id_witness:
  "cancel_appointment text_reader no_faults ''2026-11-03 11:00:00'' jane_booked ''FFFFFFFF''
     ''Patient requested cancellation via AI assistant'' = (jane_booked, False) \<and>
   cancel_appointment text_reader no_faults ''2026-11-03 11:00:00'' (schedule_only five_slots)
     ''A1B2C3D4'' ''Patient requested cancellation via AI assistant'' =
     (schedule_only five_slots, False)"
proof -
  have "appointment_id (appointment_data text_reader ''A1B2C3D4'' ''2026-11-03 10:15:00''
          jane_info chen_booking self_pay_info) = PStr ''A1B2C3D4''"
    using ledger_row_cells [OF new_patients(1) identities(1) reads_back_examples(6)
        identities(2) reads_back_examples(7) identities(3) reads_back_examples(8)]
    by simp
  then have a: "PStr ''FFFFFFFF'' \<notin> set (map appointment_id (rows (appointments_file jane_booked)))"
    by (simp add: jane_booked_store)
  have b: "PStr ''A1B2C3D4'' \<notin>
             set (map appointment_id (rows (appointments_file (schedule_only five_slots))))"
    by (simp add: schedule_only_def)
  from cancel_unknown_id [OF a] cancel_unknown_id [OF b] show ?thesis by simp
qed

section \<open>The round trip on the example clinic\<close>



end
